theory Spec2Isabelle
  imports Complex_Main "HOL-Library.Sublist" "HOL-Library.Char_ord" "HOL-Library.List_Lexorder"
    "HOL-Library.Product_Lexorder" "HOL-Library.Log_Nat"
begin

section \<open>Python values and errors\<close>

text \<open>
  The values \<^verbatim>\<open>json.load\<close> produces, and the cells the tables of \<^verbatim>\<open>app.py\<close> hold.
  A string is the list of its UTF-8 bytes; a dict is an association list in insertion
  order, looked up by its first binding of a key; \<open>PDate\<close> is a \<^verbatim>\<open>datetime.date\<close>
  (year, month, day), which only the \<^verbatim>\<open>Date\<close> column holds. The floats NaN and infinity
  are left out of \<open>PFloat\<close>.
\<close>

datatype pyval =
    PNone
  | PBool bool
  | PInt int
  | PFloat rat
  | PStr string
  | PList "pyval list"
  | PDict "(string \<times> pyval) list"
  | PDate int int int

text \<open>
  The exceptions the code can raise. \<open>RetryError\<close> is what tenacity's \<^verbatim>\<open>@retry\<close>
  raises once its three attempts have all failed. \<open>NotModelled\<close> is no Python exception:
  it marks the inputs on which these definitions do not follow pandas (group keys that
  are neither strings nor dates nor null).
\<close>

datatype py_error =
    KeyError string
  | TypeError
  | AttributeError
  | ValueError
  | RetryError
  | NotModelled

text \<open>Sequencing of fallible steps: the first exception ends the computation.\<close>

definition bind_err :: "py_error + 'a \<Rightarrow> ('a \<Rightarrow> py_error + 'b) \<Rightarrow> py_error + 'b" where
  "bind_err m f = (case m of Inl e \<Rightarrow> Inl e | Inr x \<Rightarrow> f x)"

text \<open>\<^verbatim>\<open>obj[key]\<close> with a string key: only a dict can be subscripted so.\<close>

fun py_getitem :: "pyval \<Rightarrow> string \<Rightarrow> py_error + pyval" where
  "py_getitem (PDict kvs) k = (case map_of kvs k of None \<Rightarrow> Inl (KeyError k) | Some v \<Rightarrow> Inr v)"
| "py_getitem _ k = Inl TypeError"

text \<open>\<^verbatim>\<open>obj.get(key, default)\<close>: only a dict has the method.\<close>

fun py_get :: "pyval \<Rightarrow> string \<Rightarrow> pyval \<Rightarrow> py_error + pyval" where
  "py_get (PDict kvs) k d = (case map_of kvs k of None \<Rightarrow> Inr d | Some v \<Rightarrow> Inr v)"
| "py_get _ k d = Inl AttributeError"

text \<open>
  \<^verbatim>\<open>for x in obj\<close>: a list gives its elements, a dict its keys, a string its
  characters (here: its bytes); nothing else can be iterated.
\<close>

fun py_iter :: "pyval \<Rightarrow> py_error + pyval list" where
  "py_iter (PList xs) = Inr xs"
| "py_iter (PDict kvs) = Inr (map (\<lambda>kv. PStr (fst kv)) kvs)"
| "py_iter (PStr s) = Inr (map (\<lambda>c. PStr [c]) s)"
| "py_iter _ = Inl TypeError"

section \<open>The question classifier\<close>

text \<open>
  \<^verbatim>\<open>str.lower\<close> on the ASCII letters. (On the other code points Python's \<^verbatim>\<open>lower\<close>
  never produces a run of characters that completes one of the keywords below.)
\<close>

definition lower_char :: "char \<Rightarrow> char" where
  "lower_char c =
     (let n = (of_char c :: nat) in if 65 \<le> n \<and> n \<le> 90 then char_of (n + 32) else c)"

definition str_lower :: "string \<Rightarrow> string" where
  "str_lower s = map lower_char s"

text \<open>\<^verbatim>\<open>word in question\<close> on strings: \<open>word\<close> occurs as a contiguous run.\<close>

definition str_in :: "string \<Rightarrow> string \<Rightarrow> bool" where
  "str_in word question = sublist word question"

definition define_words :: "string list" where
  "define_words = [''what is'', ''what's'', ''define'', ''explain'', ''describe'']"

definition howto_words :: "string list" where
  "howto_words = [''how to'', ''how do'', ''guide'', ''steps'', ''process'']"

text \<open>The body of \<^verbatim>\<open>analyze_question_category\<close> on a string.\<close>

definition classify :: "string \<Rightarrow> string" where
  "classify question0 =
     (let question = str_lower question0 in
      if str_in ''atlan'' question then
        (if list_ex (\<lambda>word. str_in word question) define_words
           then ''What is / Define (Branded)''
         else if list_ex (\<lambda>word. str_in word question) howto_words
           then ''FAQ / How to (Branded)''
         else ''Branded'')
      else if list_ex (\<lambda>word. str_in word question) define_words
        then ''What is / Define (Non branded)''
      else if list_ex (\<lambda>word. str_in word question) howto_words
        then ''FAQ / How to Type (Non branded)''
      else ''Others'')"

text \<open>
  \<^verbatim>\<open>analyze_question_category\<close> as it is called: on a value that is no string,
  \<^verbatim>\<open>question.lower()\<close> raises in each of the three attempts and the decorator raises
  its \<^verbatim>\<open>RetryError\<close>.
\<close>

fun analyze_question_category :: "pyval \<Rightarrow> py_error + string" where
  "analyze_question_category (PStr s) = Inr (classify s)"
| "analyze_question_category _ = Inl RetryError"

text \<open>The list comprehension over a batch: the first failing question ends it.\<close>

fun classify_batch :: "pyval list \<Rightarrow> py_error + string list" where
  "classify_batch [] = Inr []"
| "classify_batch (q # qs) =
     (case analyze_question_category q of
        Inl e \<Rightarrow> Inl e
      | Inr c \<Rightarrow> (case classify_batch qs of Inl e \<Rightarrow> Inl e | Inr cs \<Rightarrow> Inr (c # cs)))"

section \<open>The batch driver\<close>

text \<open>
  One yielded tuple \<^verbatim>\<open>(progress, processed, all_categories)\<close>. The categories are the
  contents of the list at the time of the yield. \<open>progress\<close> is the exact quotient; the
  float Python computes is that quotient rounded to the nearest double, which is positive,
  at most 1 and equal to 1 exactly when the quotient is at least 1 or rounds to 1.
\<close>

type_synonym progress_tuple = "rat \<times> int \<times> string list"

text \<open>
  The loop of \<^verbatim>\<open>analyze_batch_questions\<close> from index \<open>i\<close> on, for a positive step:
  the tuples yielded, and the exception that ended the generator, if one did.
\<close>

function batch_loop ::
  "pyval list \<Rightarrow> nat \<Rightarrow> nat \<Rightarrow> string list \<Rightarrow> progress_tuple list \<times> py_error option" where
  "batch_loop questions batch_size i all_categories =
     (if batch_size = 0 \<or> length questions \<le> i then ([], None)
      else
        (case classify_batch (take batch_size (drop i questions)) of
           Inl e \<Rightarrow> ([], Some e)
         | Inr batch_categories \<Rightarrow>
             (let all_categories' = all_categories @ batch_categories;
                  progress = min (of_nat (i + batch_size) / of_nat (length questions)) (1::rat);
                  processed = int i + min (int batch_size) (int (length questions) - int i);
                  rest = batch_loop questions batch_size (i + batch_size) all_categories'
              in ((progress, processed, all_categories') # fst rest, snd rest))))"
  by pat_completeness auto
termination
  by (relation "measure (\<lambda>(questions, batch_size, i, acc). length questions - i)") auto

declare batch_loop.simps [simp del]

text \<open>
  \<^verbatim>\<open>analyze_batch_questions(questions, batch_size)\<close>: \<^verbatim>\<open>range(0, n, 0)\<close> raises
  \<^verbatim>\<open>ValueError\<close>, a negative step gives an empty range.
\<close>

definition analyze_batch_questions ::
  "pyval list \<Rightarrow> int \<Rightarrow> progress_tuple list \<times> py_error option" where
  "analyze_batch_questions questions batch_size =
     (if batch_size = 0 then ([], Some ValueError)
      else if batch_size < 0 then ([], None)
      else batch_loop questions (nat batch_size) 0 [])"

text \<open>
  What the caller's loop \<^verbatim>\<open>for progress, processed, categories in ...: final_categories
  = categories\<close> leaves in \<^verbatim>\<open>final_categories\<close>, which starts as \<^verbatim>\<open>None\<close>.
\<close>

definition final_categories :: "progress_tuple list \<Rightarrow> string list option" where
  "final_categories ys = (if ys = [] then None else Some (snd (snd (last ys))))"

section \<open>Timestamps\<close>

text \<open>
  \<^verbatim>\<open>datetime.strptime(s, "%Y-%m-%dT%H:%M:%S.%f")\<close> and
  \<^verbatim>\<open>strftime("%B %d, %Y %H:%M:%S")\<close>, after the regular expressions of CPython's
  \<^verbatim>\<open>_strptime\<close> module and the documentation of \<^verbatim>\<open>strftime\<close> (English month
  names, the year padded to four digits). Digits are the ASCII digits.
\<close>

record datetime =
  year :: int
  month :: int
  day :: int
  hour :: int
  minute :: int
  second :: int
  microsecond :: int

definition is_digit :: "char \<Rightarrow> bool" where
  "is_digit c = (48 \<le> (of_char c :: int) \<and> (of_char c :: int) \<le> 57)"

definition digit_val :: "char \<Rightarrow> int" where
  "digit_val c = of_char c - 48"

definition in_range :: "char \<Rightarrow> char \<Rightarrow> char \<Rightarrow> bool" where
  "in_range lo hi c = ((of_char lo :: int) \<le> of_char c \<and> (of_char c :: int) \<le> of_char hi)"

definition digits_val :: "string \<Rightarrow> int" where
  "digits_val ds = foldl (\<lambda>n c. 10 * n + digit_val c) 0 ds"

text \<open>\<^verbatim>\<open>%Y\<close> is \<^verbatim>\<open>\d\d\d\d\<close>.\<close>

fun parse_Y :: "string \<Rightarrow> (int \<times> string) option" where
  "parse_Y (a # b # c # d # r) =
     (if is_digit a \<and> is_digit b \<and> is_digit c \<and> is_digit d
      then Some (digits_val [a, b, c, d], r) else None)"
| "parse_Y _ = None"

text \<open>
  A field of one or two characters: \<open>two a b\<close> says that \<open>a\<close>, \<open>b\<close> match one of the
  two-character alternatives of the field, \<open>one a\<close> that \<open>a\<close> matches its one-character
  alternative. The two-character alternatives come first in each pattern, and the
  character that follows a field in the format is no digit, so the first alternative that
  matches is the only one the rest of the pattern can match after.
\<close>

fun parse_field ::
  "(char \<Rightarrow> char \<Rightarrow> bool) \<Rightarrow> (char \<Rightarrow> bool) \<Rightarrow> string \<Rightarrow> (int \<times> string) option" where
  "parse_field two one (a # b # r) =
     (if two a b then Some (digits_val [a, b], r)
      else if one a then Some (digit_val a, b # r) else None)"
| "parse_field two one [a] = (if one a then Some (digit_val a, []) else None)"
| "parse_field two one [] = None"

text \<open>\<^verbatim>\<open>%m\<close> is \<^verbatim>\<open>1[0-2]|0[1-9]|[1-9]\<close>.\<close>

definition parse_m :: "string \<Rightarrow> (int \<times> string) option" where
  "parse_m = parse_field
     (\<lambda>a b. a = CHR ''1'' \<and> in_range CHR ''0'' CHR ''2'' b
          \<or> a = CHR ''0'' \<and> in_range CHR ''1'' CHR ''9'' b)
     (in_range CHR ''1'' CHR ''9'')"

text \<open>
  \<^verbatim>\<open>%d\<close> is \<^verbatim>\<open>3[0-1]|[1-2]\d|0[1-9]|[1-9]| [1-9]\<close>; in the last alternative the
  space counts for nothing in the value.
\<close>

fun parse_d :: "string \<Rightarrow> (int \<times> string) option" where
  "parse_d (a # b # r) =
     (if a = CHR ''3'' \<and> in_range CHR ''0'' CHR ''1'' b
         \<or> in_range CHR ''1'' CHR ''2'' a \<and> is_digit b
         \<or> a = CHR ''0'' \<and> in_range CHR ''1'' CHR ''9'' b
      then Some (digits_val [a, b], r)
      else if in_range CHR ''1'' CHR ''9'' a then Some (digit_val a, b # r)
      else if a = CHR '' '' \<and> in_range CHR ''1'' CHR ''9'' b then Some (digit_val b, r)
      else None)"
| "parse_d [a] = (if in_range CHR ''1'' CHR ''9'' a then Some (digit_val a, []) else None)"
| "parse_d [] = None"

text \<open>\<^verbatim>\<open>%H\<close> is \<^verbatim>\<open>2[0-3]|[0-1]\d|\d\<close>.\<close>

definition parse_H :: "string \<Rightarrow> (int \<times> string) option" where
  "parse_H = parse_field
     (\<lambda>a b. a = CHR ''2'' \<and> in_range CHR ''0'' CHR ''3'' b
          \<or> in_range CHR ''0'' CHR ''1'' a \<and> is_digit b)
     is_digit"

text \<open>\<^verbatim>\<open>%M\<close> is \<^verbatim>\<open>[0-5]\d|\d\<close>.\<close>

definition parse_M :: "string \<Rightarrow> (int \<times> string) option" where
  "parse_M = parse_field (\<lambda>a b. in_range CHR ''0'' CHR ''5'' a \<and> is_digit b) is_digit"

text \<open>\<^verbatim>\<open>%S\<close> is \<^verbatim>\<open>6[0-1]|[0-5]\d|\d\<close>.\<close>

definition parse_S :: "string \<Rightarrow> (int \<times> string) option" where
  "parse_S = parse_field
     (\<lambda>a b. a = CHR ''6'' \<and> in_range CHR ''0'' CHR ''1'' b
          \<or> in_range CHR ''0'' CHR ''5'' a \<and> is_digit b)
     is_digit"

text \<open>
  \<^verbatim>\<open>%f\<close> is \<^verbatim>\<open>[0-9]{1,6}\<close>, greedy: the digits at the front, at most six of them;
  the value pads them with zeros on the right to six digits.
\<close>

definition parse_f :: "string \<Rightarrow> (int \<times> string) option" where
  "parse_f s =
     (let ds = take 6 (takeWhile is_digit s) in
      if ds = [] then None
      else Some (digits_val (ds @ replicate (6 - length ds) CHR ''0''), drop (length ds) s))"

text \<open>A literal character of the format; the pattern is compiled to ignore case.\<close>

fun parse_lit :: "char \<Rightarrow> string \<Rightarrow> string option" where
  "parse_lit l [] = None"
| "parse_lit l (c # r) = (if lower_char c = lower_char l then Some r else None)"

definition is_leap :: "int \<Rightarrow> bool" where
  "is_leap y = (y mod 4 = 0 \<and> (y mod 100 \<noteq> 0 \<or> y mod 400 = 0))"

definition days_in_month :: "int \<Rightarrow> int \<Rightarrow> int" where
  "days_in_month y m =
     (if m = 2 then (if is_leap y then 29 else 28)
      else if m = 4 \<or> m = 6 \<or> m = 9 \<or> m = 11 then 30 else 31)"

text \<open>
  The checks of the \<^verbatim>\<open>datetime\<close> constructor that the pattern does not make already:
  the year is at least 1, the day exists in the month, a second is below 60.
\<close>

definition valid_datetime :: "datetime \<Rightarrow> bool" where
  "valid_datetime t =
     (1 \<le> year t \<and> 1 \<le> month t \<and> month t \<le> 12
      \<and> 1 \<le> day t \<and> day t \<le> days_in_month (year t) (month t)
      \<and> hour t \<le> 23 \<and> minute t \<le> 59 \<and> second t \<le> 59)"

text \<open>
  The whole pattern must match and nothing may remain (``unconverted data remains'');
  every failure is a \<^verbatim>\<open>ValueError\<close>.
\<close>

definition strptime :: "string \<Rightarrow> py_error + datetime" where
  "strptime s =
     (case
        Option.bind (parse_Y s) (\<lambda>(y, s).
        Option.bind (parse_lit CHR ''-'' s) (\<lambda>s.
        Option.bind (parse_m s) (\<lambda>(m, s).
        Option.bind (parse_lit CHR ''-'' s) (\<lambda>s.
        Option.bind (parse_d s) (\<lambda>(d, s).
        Option.bind (parse_lit CHR ''T'' s) (\<lambda>s.
        Option.bind (parse_H s) (\<lambda>(H, s).
        Option.bind (parse_lit CHR '':'' s) (\<lambda>s.
        Option.bind (parse_M s) (\<lambda>(M, s).
        Option.bind (parse_lit CHR '':'' s) (\<lambda>s.
        Option.bind (parse_S s) (\<lambda>(S, s).
        Option.bind (parse_lit CHR ''.'' s) (\<lambda>s.
        Option.bind (parse_f s) (\<lambda>(f, s).
          if s = [] then
            Some \<lparr>year = y, month = m, day = d, hour = H, minute = M, second = S, microsecond = f\<rparr>
          else None)))))))))))))
      of
        None \<Rightarrow> Inl ValueError
      | Some t \<Rightarrow> if valid_datetime t then Inr t else Inl ValueError)"

definition month_names :: "string list" where
  "month_names = [''January'', ''February'', ''March'', ''April'', ''May'', ''June'', ''July'',
     ''August'', ''September'', ''October'', ''November'', ''December'']"

definition digit_char :: "int \<Rightarrow> char" where
  "digit_char n = char_of (48 + n mod 10)"

definition pad2 :: "int \<Rightarrow> string" where
  "pad2 n = [digit_char (n div 10), digit_char n]"

definition pad4 :: "int \<Rightarrow> string" where
  "pad4 n = [digit_char (n div 1000), digit_char (n div 100), digit_char (n div 10), digit_char n]"

definition strftime :: "datetime \<Rightarrow> string" where
  "strftime t = month_names ! nat (month t - 1) @ '' '' @ pad2 (day t) @ '', '' @ pad4 (year t)
     @ '' '' @ pad2 (hour t) @ '':'' @ pad2 (minute t) @ '':'' @ pad2 (second t)"

text \<open>\<^verbatim>\<open>x.split('+')[0]\<close>: what precedes the first plus sign; only a string has the method.\<close>

fun split_plus_head :: "pyval \<Rightarrow> py_error + string" where
  "split_plus_head (PStr s) = Inr (takeWhile (\<lambda>c. c \<noteq> CHR ''+'') s)"
| "split_plus_head _ = Inl AttributeError"

section \<open>The conversation flattener\<close>

text \<open>One dict appended to \<^verbatim>\<open>conversation_details\<close>.\<close>

record question_row =
  s_no :: int
  asked_at :: string
  country :: pyval
  user_question :: pyval
  assistant_response :: pyval
  score :: pyval

text \<open>
  The body of the first loop over the messages: the pair
  \<^verbatim>\<open>(last_assistant_response, last_assistant_score)\<close> is overwritten at every assistant
  text message.
\<close>

definition assistant_step :: "pyval \<Rightarrow> pyval \<times> pyval \<Rightarrow> py_error + pyval \<times> pyval" where
  "assistant_step message st =
     bind_err (py_get message ''role'' PNone) (\<lambda>role.
       if role = PStr ''assistant'' then
         bind_err (py_get message ''type'' PNone) (\<lambda>type.
           if type = PStr ''text'' then
             bind_err (py_get message ''content'' PNone) (\<lambda>content.
             bind_err (py_get message ''score'' (PStr ''N/A'')) (\<lambda>sc. Inr (content, sc)))
           else Inr st)
       else Inr st)"

fun find_last_assistant :: "pyval list \<Rightarrow> pyval \<times> pyval \<Rightarrow> py_error + pyval \<times> pyval" where
  "find_last_assistant [] st = Inr st"
| "find_last_assistant (message # messages) st =
     (case assistant_step message st of
        Inl e \<Rightarrow> Inl e
      | Inr st' \<Rightarrow> find_last_assistant messages st')"

text \<open>
  The body of the second loop: a user message appends a row. The country is looked up
  only here, while the row is built.
\<close>

definition user_step ::
  "pyval \<Rightarrow> string \<Rightarrow> pyval \<times> pyval \<Rightarrow> pyval \<Rightarrow> question_row list \<Rightarrow> py_error + question_row list" where
  "user_step conversation formatted_date st message details =
     bind_err (py_get message ''role'' PNone) (\<lambda>role.
       if role = PStr ''user'' then
         bind_err (py_get message ''content'' PNone) (\<lambda>question.
         bind_err (py_getitem conversation ''country'') (\<lambda>c.
           Inr (details @
             [\<lparr>s_no = int (length details) + 1, asked_at = formatted_date, country = c,
               user_question = question, assistant_response = fst st, score = snd st\<rparr>])))
       else Inr details)"

fun collect_user_questions ::
  "pyval \<Rightarrow> string \<Rightarrow> pyval \<times> pyval \<Rightarrow> pyval list \<Rightarrow> question_row list \<Rightarrow> py_error + question_row list" where
  "collect_user_questions conversation formatted_date st [] details = Inr details"
| "collect_user_questions conversation formatted_date st (message # messages) details =
     (case user_step conversation formatted_date st message details of
        Inl e \<Rightarrow> Inl e
      | Inr details' \<Rightarrow> collect_user_questions conversation formatted_date st messages details')"

text \<open>
  The body of the loop over the conversations. \<^verbatim>\<open>conversation['messages']\<close> is read
  once here; the second read of the code gives the same value.
\<close>

definition process_conversation :: "pyval \<Rightarrow> question_row list \<Rightarrow> py_error + question_row list" where
  "process_conversation conversation details =
     bind_err (py_getitem conversation ''created_at'') (\<lambda>raw.
     bind_err (split_plus_head raw) (\<lambda>stamp.
     bind_err (strptime stamp) (\<lambda>created_at.
     bind_err (py_getitem conversation ''messages'') (\<lambda>msgs.
     bind_err (py_iter msgs) (\<lambda>messages.
     bind_err (find_last_assistant messages (PNone, PStr ''N/A'')) (\<lambda>st.
       collect_user_questions conversation (strftime created_at) st messages details))))))"

fun process_loop :: "pyval list \<Rightarrow> question_row list \<Rightarrow> py_error + question_row list" where
  "process_loop [] details = Inr details"
| "process_loop (conversation # conversations) details =
     (case process_conversation conversation details of
        Inl e \<Rightarrow> Inl e
      | Inr details' \<Rightarrow> process_loop conversations details')"

text \<open>The list \<^verbatim>\<open>conversation_details\<close> at the end of \<^verbatim>\<open>process_conversations\<close>.\<close>

definition conversation_details :: "pyval \<Rightarrow> py_error + question_row list" where
  "conversation_details data =
     bind_err (py_getitem data ''conversations'') (\<lambda>cs.
     bind_err (py_iter cs) (\<lambda>conversations. process_loop conversations []))"

section \<open>Tables\<close>

text \<open>
  A \<^verbatim>\<open>DataFrame\<close>: its columns in order, each with its name and its cells from the
  first row to the last (the index is not modelled). The frame built from an empty list
  of dicts has no column.
\<close>

type_synonym dataframe = "(string \<times> pyval list) list"

definition DataFrame :: "question_row list \<Rightarrow> dataframe" where
  "DataFrame details =
     (if details = [] then []
      else [(''S.No'', map (\<lambda>r. PInt (s_no r)) details),
            (''Asked at'', map (\<lambda>r. PStr (asked_at r)) details),
            (''Country'', map country details),
            (''User Question'', map user_question details),
            (''Assistant Response'', map assistant_response details),
            (''Score'', map score details)])"

definition process_conversations :: "pyval \<Rightarrow> py_error + dataframe" where
  "process_conversations data = bind_err (conversation_details data) (\<lambda>details. Inr (DataFrame details))"

section \<open>Columns, groups and sorting\<close>

text \<open>\<^verbatim>\<open>df[c]\<close> raises \<^verbatim>\<open>KeyError\<close> when the frame has no column \<open>c\<close>.\<close>

definition df_getitem :: "dataframe \<Rightarrow> string \<Rightarrow> py_error + pyval list" where
  "df_getitem df c = (case map_of df c of None \<Rightarrow> Inl (KeyError c) | Some xs \<Rightarrow> Inr xs)"

text \<open>
  \<^verbatim>\<open>df[c] = values\<close> replaces the cells of the column \<open>c\<close>, or adds the column at the
  end when the frame has none of this name; this changes the frame the caller holds.
\<close>

definition df_setitem :: "dataframe \<Rightarrow> string \<Rightarrow> pyval list \<Rightarrow> dataframe" where
  "df_setitem df c xs =
     (if c \<in> set (map fst df) then map (\<lambda>kv. if fst kv = c then (c, xs) else kv) df
      else df @ [(c, xs)])"

text \<open>
  The cells of a column of strings, with \<open>None\<close> for a null cell. A column with a cell of
  another kind is outside these definitions: pandas compares and hashes such cells by
  Python's rules, which are not modelled.
\<close>

fun str_cell :: "pyval \<Rightarrow> py_error + string option" where
  "str_cell (PStr s) = Inr (Some s)"
| "str_cell PNone = Inr None"
| "str_cell _ = Inl NotModelled"

fun str_cells :: "pyval list \<Rightarrow> py_error + string option list" where
  "str_cells [] = Inr []"
| "str_cells (x # xs) =
     (case str_cell x of
        Inl e \<Rightarrow> Inl e
      | Inr k \<Rightarrow> (case str_cells xs of Inl e \<Rightarrow> Inl e | Inr ks \<Rightarrow> Inr (k # ks)))"

text \<open>
  \<^verbatim>\<open>groupby\<close> with its defaults: the rows with a null key are dropped, the groups come
  in ascending order of their keys, and each group holds the positions of its rows in
  their order.
\<close>

definition groupby :: "('k::linorder) option list \<Rightarrow> ('k \<times> nat list) list" where
  "groupby keys =
     map (\<lambda>k. (k, filter (\<lambda>i. keys ! i = Some k) [0..<length keys]))
       (sorted_list_of_set (set (List.map_filter (\<lambda>x. x) keys)))"

text \<open>\<^verbatim>\<open>count\<close>: the cells of the group that are not null.\<close>

definition agg_count :: "pyval list \<Rightarrow> nat list \<Rightarrow> int" where
  "agg_count col idxs = int (length (filter (\<lambda>i. col ! i \<noteq> PNone) idxs))"

text \<open>\<^verbatim>\<open>nunique\<close>: the distinct cells of the group that are not null.\<close>

definition agg_nunique :: "string option list \<Rightarrow> nat list \<Rightarrow> int" where
  "agg_nunique col idxs = int (card (set (List.map_filter (\<lambda>i. col ! i) idxs)))"

text \<open>
  \<^verbatim>\<open>sort_values(by, ascending=False)\<close>: the rows in descending order of the key, rows
  with equal keys in the order they had. (pandas does not promise the order of equal keys
  for its default sorting algorithm; the one modelled is what a stable algorithm gives.)
\<close>

definition sort_values_desc :: "('a \<Rightarrow> int) \<Rightarrow> 'a list \<Rightarrow> 'a list" where
  "sort_values_desc by rows = sort_key (\<lambda>r. - by r) rows"

section \<open>The aggregators\<close>

text \<open>
  \<^verbatim>\<open>get_country_metrics\<close>. The frame itself is not assigned to. When several of the
  columns are missing, the \<^verbatim>\<open>KeyError\<close> here names the first one the code mentions.
\<close>

definition country_frame :: "(string \<times> int \<times> int) list \<Rightarrow> dataframe" where
  "country_frame rows =
     [(''Country'', map (\<lambda>r. PStr (fst r)) rows),
      (''Questions'', map (\<lambda>r. PInt (fst (snd r))) rows),
      (''Users'', map (\<lambda>r. PInt (snd (snd r))) rows)]"

definition get_country_metrics :: "dataframe \<Rightarrow> py_error + dataframe" where
  "get_country_metrics df =
     bind_err (df_getitem df ''Country'') (\<lambda>country_col.
     bind_err (df_getitem df ''User Question'') (\<lambda>question_col.
     bind_err (df_getitem df ''Asked at'') (\<lambda>asked_col.
     bind_err (str_cells country_col) (\<lambda>keys.
     bind_err (str_cells asked_col) (\<lambda>asked.
       let country_metrics =
             map (\<lambda>g. (fst g, agg_count question_col (snd g), agg_nunique asked (snd g)))
               (groupby keys)
       in Inr (country_frame (sort_values_desc (\<lambda>r. fst (snd r)) country_metrics)))))))"

text \<open>
  \<^verbatim>\<open>get_daily_metrics\<close>. \<open>to_date\<close> stands for \<^verbatim>\<open>pd.to_datetime(...).dt.date\<close>, the
  date parser of pandas: it gives the column of dates (year, month, day; \<open>None\<close> for a
  missing one) or raises. The function returns its result, or the exception it raised,
  together with the frame \<open>df\<close> as the call leaves it.
\<close>

type_synonym date = "int \<times> int \<times> int"

definition date_cell :: "date option \<Rightarrow> pyval" where
  "date_cell d = (case d of None \<Rightarrow> PNone | Some (y, m, dd) \<Rightarrow> PDate y m dd)"

definition daily_frame :: "(date \<times> int \<times> int) list \<Rightarrow> dataframe" where
  "daily_frame rows =
     [(''Date'', map (\<lambda>r. date_cell (Some (fst r))) rows),
      (''Questions'', map (\<lambda>r. PInt (fst (snd r))) rows),
      (''Users'', map (\<lambda>r. PInt (snd (snd r))) rows)]"

text \<open>\<^verbatim>\<open>pd.merge(left, right, on='Date')\<close>: the inner join, in the order of the left keys.\<close>

definition merge_on_date :: "(date \<times> int) list \<Rightarrow> (date \<times> int) list \<Rightarrow> (date \<times> int \<times> int) list" where
  "merge_on_date left right =
     concat (map (\<lambda>l. map (\<lambda>r. (fst l, snd l, snd r)) (filter (\<lambda>r. fst r = fst l) right)) left)"

definition get_daily_metrics ::
  "(pyval list \<Rightarrow> py_error + date option list) \<Rightarrow> dataframe \<Rightarrow> (py_error + dataframe) \<times> dataframe" where
  "get_daily_metrics to_date df =
     (case bind_err (df_getitem df ''Asked at'') to_date of
        Inl e \<Rightarrow> (Inl e, df)
      | Inr dates \<Rightarrow>
          (let df' = df_setitem df ''Date'' (map date_cell dates) in
           (bind_err (df_getitem df' ''User Question'') (\<lambda>question_col.
              let daily_questions = map (\<lambda>g. (fst g, agg_count question_col (snd g))) (groupby dates) in
              bind_err (df_getitem df' ''Country'') (\<lambda>country_col.
              bind_err (str_cells country_col) (\<lambda>countries.
                let daily_users = map (\<lambda>g. (fst g, agg_nunique countries (snd g))) (groupby dates)
                in Inr (daily_frame (merge_on_date daily_questions daily_users))))),
            df')))"

section \<open>Percentages\<close>

text \<open>
  The arithmetic of \<^verbatim>\<open>(Count / Count.sum() * 100).round(2)\<close> on doubles. A double is
  the rational it denotes; \<open>fl\<close> rounds a rational to the nearest double, ties to the
  even significand, as every operation of IEEE 754 does with its exact result. The range
  of the exponent is not limited: the quotients of two counts below \<open>2 ^ 63\<close> and their
  multiples by 100 and 10000 are far from overflow and underflow.
\<close>

definition pow2 :: "int \<Rightarrow> rat" where
  "pow2 e = (if 0 \<le> e then 2 ^ nat e else 1 / 2 ^ nat (- e))"

text \<open>For \<open>x > 0\<close>: the exponent \<open>e\<close> with \<open>2 ^ e \<le> x < 2 ^ (e + 1)\<close>.\<close>

definition ilog2 :: "rat \<Rightarrow> int" where
  "ilog2 x =
     (let e0 = bitlen (fst (quotient_of x)) - bitlen (snd (quotient_of x))
      in if pow2 e0 \<le> x then e0 else e0 - 1)"

definition round_half_even :: "rat \<Rightarrow> int" where
  "round_half_even x =
     (let f = \<lfloor>x\<rfloor>; d = x - of_int f in
      if d < 1 / 2 then f else if 1 / 2 < d then f + 1 else if even f then f else f + 1)"

definition fl :: "rat \<Rightarrow> rat" where
  "fl x =
     (if x = 0 then 0
      else let ulp = pow2 (ilog2 \<bar>x\<bar> - 52)
           in sgn x * of_int (round_half_even (\<bar>x\<bar> / ulp)) * ulp)"

text \<open>
  The percentage of a count in hundredths: the division and the multiplication by 100,
  then \<^verbatim>\<open>round(2)\<close>, which multiplies by 100 and rounds to the nearest integer, ties to
  even. (Its last step divides by 100 again; the string of the result is taken from the
  integer, see \<open>percent_str\<close>.)
\<close>

definition percent_hundredths :: "int \<Rightarrow> int \<Rightarrow> int" where
  "percent_hundredths cnt tot =
     round_half_even (fl (fl (fl (fl (of_int cnt) / fl (of_int tot)) * 100) * 100))"

fun str_nat :: "nat \<Rightarrow> string" where
  "str_nat n = (if n < 10 then [digit_char (int n)] else str_nat (n div 10) @ [digit_char (int n)])"

text \<open>
  \<^verbatim>\<open>astype(str)\<close> of the double nearest to \<open>k / 100\<close>, for \<open>k \<ge> 0\<close>: the shortest decimal
  that denotes this double, which is \<open>k / 100\<close> written with one fractional digit when
  the second one is zero and with two otherwise.
\<close>

definition percent_str :: "int \<Rightarrow> string" where
  "percent_str k =
     str_nat (nat (k div 100)) @ ''.'' @
       (if k mod 10 = 0 then [digit_char (k mod 100 div 10)]
        else [digit_char (k mod 100 div 10), digit_char k])"

text \<open>
  \<^verbatim>\<open>get_category_metrics\<close>, without its calls to the user interface. It returns its
  result (the metrics; the frame it returns with them is \<open>df\<close> itself), or the exception
  it raised, together with the frame \<open>df\<close> as the call leaves it. When the driver has
  yielded nothing the column \<^verbatim>\<open>Category\<close> is set to the scalar \<^verbatim>\<open>None\<close>.
\<close>

definition category_frame :: "(string \<times> int \<times> string) list \<Rightarrow> dataframe" where
  "category_frame rows =
     [(''Category'', map (\<lambda>r. PStr (fst r)) rows),
      (''Count'', map (\<lambda>r. PInt (fst (snd r))) rows),
      (''Percentage'', map (\<lambda>r. PStr (snd (snd r))) rows)]"

text \<open>A row of counts with its \<^verbatim>\<open>Percentage\<close>.\<close>

definition percentage_row :: "int \<Rightarrow> string \<times> int \<Rightarrow> string \<times> int \<times> string" where
  "percentage_row count_sum r =
     (fst r, snd r, percent_str (percent_hundredths (snd r) count_sum) @ ''%'')"

text \<open>
  The table \<^verbatim>\<open>category_metrics\<close>, from the cells of \<^verbatim>\<open>User Question\<close> and of
  \<^verbatim>\<open>Category\<close>: the counts of the groups, their percentages, and the sort.
\<close>

definition category_table :: "pyval list \<Rightarrow> string option list \<Rightarrow> dataframe" where
  "category_table question_col categories =
     (let counts = map (\<lambda>g. (fst g, agg_count question_col (snd g))) (groupby categories);
          count_sum = sum_list (map snd counts);
          category_metrics = map (percentage_row count_sum) counts
      in category_frame (sort_values_desc (\<lambda>r. fst (snd r)) category_metrics))"

text \<open>
  The statements of \<^verbatim>\<open>get_category_metrics\<close> that follow its loop, from
  \<^verbatim>\<open>df['Category'] = final_categories\<close> on; \<open>categories\<close> are the cells assigned.
\<close>

definition summarize_categories :: "dataframe \<Rightarrow> string option list \<Rightarrow> (py_error + dataframe) \<times> dataframe" where
  "summarize_categories df categories =
     (let df' = df_setitem df ''Category''
                  (map (\<lambda>c. case c of None \<Rightarrow> PNone | Some s \<Rightarrow> PStr s) categories)
      in (bind_err (df_getitem df' ''User Question'') (\<lambda>question_col.
            Inr (category_table question_col categories)),
          df'))"

definition get_category_metrics :: "dataframe \<Rightarrow> (py_error + dataframe) \<times> dataframe" where
  "get_category_metrics df =
     (case df_getitem df ''User Question'' of
        Inl e \<Rightarrow> (Inl e, df)
      | Inr questions \<Rightarrow>
          (case analyze_batch_questions questions 250 of
             (ys, Some e) \<Rightarrow> (Inl e, df)
           | (ys, None) \<Rightarrow>
               summarize_categories df
                 (case final_categories ys of
                    None \<Rightarrow> replicate (length questions) None
                  | Some cs \<Rightarrow> map Some cs)))"

section \<open>The vocabulary of the claims about the flattener\<close>

text \<open>
  What the specification calls an assistant text message and a user message, the content
  and the score of a message (with the defaults of \<^verbatim>\<open>get\<close>), and the messages and the
  country of a conversation.
\<close>

definition is_assistant_text :: "pyval \<Rightarrow> bool" where
  "is_assistant_text m =
     (py_get m ''role'' PNone = Inr (PStr ''assistant'') \<and> py_get m ''type'' PNone = Inr (PStr ''text''))"

definition is_user :: "pyval \<Rightarrow> bool" where
  "is_user m = (py_get m ''role'' PNone = Inr (PStr ''user''))"

definition content_of :: "pyval \<Rightarrow> pyval" where
  "content_of m = (case py_get m ''content'' PNone of Inr v \<Rightarrow> v | Inl e \<Rightarrow> PNone)"

definition score_of :: "pyval \<Rightarrow> pyval" where
  "score_of m = (case py_get m ''score'' (PStr ''N/A'') of Inr v \<Rightarrow> v | Inl e \<Rightarrow> PStr ''N/A'')"

definition messages_of :: "pyval \<Rightarrow> pyval list" where
  "messages_of conversation =
     (case bind_err (py_getitem conversation ''messages'') py_iter of Inr ms \<Rightarrow> ms | Inl e \<Rightarrow> [])"

definition country_of :: "pyval \<Rightarrow> pyval" where
  "country_of conversation =
     (case py_getitem conversation ''country'' of Inr c \<Rightarrow> c | Inl e \<Rightarrow> PNone)"

definition conversations_of :: "pyval \<Rightarrow> pyval list" where
  "conversations_of data =
     (case bind_err (py_getitem data ''conversations'') py_iter of Inr cs \<Rightarrow> cs | Inl e \<Rightarrow> [])"

definition user_count :: "pyval \<Rightarrow> nat" where
  "user_count conversation = length (filter is_user (messages_of conversation))"

text \<open>
  The rows emitted for the conversation at position \<open>i\<close>: those that follow the rows of
  the conversations before it, one for each of its user messages.
\<close>

definition rows_of :: "pyval list \<Rightarrow> question_row list \<Rightarrow> nat \<Rightarrow> question_row list" where
  "rows_of conversations rows i =
     take (user_count (conversations ! i))
       (drop (sum_list (map user_count (take i conversations))) rows)"

text \<open>The conversation's \<^verbatim>\<open>created_at\<close>, parsed and formatted for display.\<close>

definition formatted_created_at :: "pyval \<Rightarrow> py_error + string" where
  "formatted_created_at conversation =
     bind_err (py_getitem conversation ''created_at'') (\<lambda>raw.
     bind_err (split_plus_head raw) (\<lambda>stamp.
     bind_err (strptime stamp) (\<lambda>created_at. Inr (strftime created_at))))"

text \<open>
  The answer and the score the specification gives the rows of a conversation: the content
  and the score of its last assistant text message, or null and the sentinel when it has
  none.
\<close>

definition last_answer :: "pyval \<Rightarrow> pyval \<times> pyval" where
  "last_answer conversation =
     (let ats = filter is_assistant_text (messages_of conversation) in
      if ats = [] then (PNone, PStr ''N/A'') else (content_of (last ats), score_of (last ats)))"

text \<open>What holds of the rows \<open>new\<close> that one conversation adds.\<close>

definition emitted_ok :: "pyval \<Rightarrow> question_row list \<Rightarrow> bool" where
  "emitted_ok conversation new =
     (length new = user_count conversation
      \<and> map user_question new = map content_of (filter is_user (messages_of conversation))
      \<and> (\<forall>r \<in> set new.
            Inr (asked_at r) = formatted_created_at conversation
            \<and> country r = country_of conversation
            \<and> assistant_response r = fst (last_answer conversation)
            \<and> score r = snd (last_answer conversation)))"







text \<open>A small document: two conversations, the second without messages.\<close>

definition example_document :: pyval where
  "example_document = PDict [(''conversations'', PList [
     PDict [(''created_at'', PStr ''2024-01-15T10:30:00.123456+00:00''),
            (''country'', PStr ''US''),
            (''messages'', PList [
               PDict [(''role'', PStr ''user''), (''content'', PStr ''What is Atlan?'')],
               PDict [(''role'', PStr ''assistant''), (''type'', PStr ''text''),
                      (''content'', PStr ''A platform.''), (''score'', PInt 1)],
               PDict [(''role'', PStr ''user''), (''content'', PStr ''hello'')],
               PDict [(''role'', PStr ''assistant''), (''type'', PStr ''text''),
                      (''content'', PStr ''Hi.'')]])],
     PDict [(''created_at'', PStr ''2024-02-29T23:59:59.5''),
            (''country'', PStr ''IN''),
            (''messages'', PList [])]])]"








definition example_rows :: "question_row list" where
  "example_rows =
     [\<lparr>s_no = 1, asked_at = ''January 15, 2024 10:30:00'', country = PStr ''US'',
       user_question = PStr ''What is Atlan?'', assistant_response = PStr ''Hi.'',
       score = PStr ''N/A''\<rparr>,
      \<lparr>s_no = 2, asked_at = ''January 15, 2024 10:30:00'', country = PStr ''US'',
       user_question = PStr ''hello'', assistant_response = PStr ''Hi.'',
       score = PStr ''N/A''\<rparr>]"

section \<open>Properties of the classifier and the batch driver\<close>

text \<open>
  C3: the classifier gives the six example questions of the specification exactly the
  labels stated there.
\<close>

theorem classifier_examples:
  "analyze_question_category (PStr ''What is Atlan?'') = Inr ''What is / Define (Branded)''
   \<and> analyze_question_category (PStr ''How to use Atlan connectors'') = Inr ''FAQ / How to (Branded)''
   \<and> analyze_question_category (PStr ''Atlan pricing'') = Inr ''Branded''
   \<and> analyze_question_category (PStr ''What is data lineage?'') = Inr ''What is / Define (Non branded)''
   \<and> analyze_question_category (PStr ''How do I set up a guide'') = Inr ''FAQ / How to Type (Non branded)''
   \<and> analyze_question_category (PStr ''hello'') = Inr ''Others''"
proof (intro conjI)
  show "analyze_question_category (PStr ''What is Atlan?'') = Inr ''What is / Define (Branded)''"
    by code_simp
  show "analyze_question_category (PStr ''How to use Atlan connectors'') = Inr ''FAQ / How to (Branded)''"
    by code_simp
  show "analyze_question_category (PStr ''Atlan pricing'') = Inr ''Branded''"
    by code_simp
  show "analyze_question_category (PStr ''What is data lineage?'') = Inr ''What is / Define (Non branded)''"
    by code_simp
  show "analyze_question_category (PStr ''How do I set up a guide'') = Inr ''FAQ / How to Type (Non branded)''"
    by code_simp
  show "analyze_question_category (PStr ''hello'') = Inr ''Others''"
    by code_simp
qed

subsection \<open>The batch driver on a list of strings\<close>












section \<open>Properties of the flattener\<close>

subsection \<open>What a successful run has appended\<close>

lemma bind_err_Inr: "bind_err m f = Inr y \<Longrightarrow> \<exists>x. m = Inr x \<and> f x = Inr y"
  by (cases m) (simp_all add: bind_err_def)

lemma py_get_Inr: "py_get m k d = Inr v \<Longrightarrow> \<exists>kvs. m = PDict kvs"
  by (cases m) simp_all

lemma assistant_step_Inr:
  assumes "assistant_step m st = Inr st'"
  shows "st' = (if is_assistant_text m then (content_of m, score_of m) else st)"
proof -
  from assms obtain role where r: "py_get m ''role'' PNone = Inr role"
    unfolding assistant_step_def by (auto dest: bind_err_Inr)
  then obtain kvs where m: "m = PDict kvs" by (auto dest: py_get_Inr)
  show ?thesis using assms unfolding m
    by (auto simp: assistant_step_def bind_err_def is_assistant_text_def content_of_def score_of_def
        split: option.splits if_splits)
qed

lemma find_last_assistant_Inr:
  "find_last_assistant ms st = Inr st' \<Longrightarrow>
   st' = (if filter is_assistant_text ms = [] then st
          else (content_of (last (filter is_assistant_text ms)),
                score_of (last (filter is_assistant_text ms))))"
proof (induction ms arbitrary: st)
  case Nil
  then show ?case by simp
next
  case (Cons m ms)
  from Cons.prems obtain st1 where s1: "assistant_step m st = Inr st1"
    and rest: "find_last_assistant ms st1 = Inr st'"
    by (auto split: sum.splits)
  note ih = Cons.IH [OF rest]
  from assistant_step_Inr [OF s1] ih show ?case by auto
qed

lemma user_step_Inr:
  assumes "user_step conv date st m details = Inr out"
  shows "out = details @ (if is_user m then
      [\<lparr>s_no = int (length details) + 1, asked_at = date, country = country_of conv,
        user_question = content_of m, assistant_response = fst st, score = snd st\<rparr>] else [])"
proof -
  from assms obtain role where r: "py_get m ''role'' PNone = Inr role"
    unfolding user_step_def by (auto dest: bind_err_Inr)
  then obtain kvs where m: "m = PDict kvs" by (auto dest: py_get_Inr)
  show ?thesis using assms unfolding m
    by (auto simp: user_step_def bind_err_def is_user_def content_of_def country_of_def
        split: option.splits if_splits sum.splits)
qed


lemma collect_user_questions_Inr:
  "collect_user_questions conv date st ms details = Inr out \<Longrightarrow>
   \<exists>new. out = details @ new
     \<and> map user_question new = map content_of (filter is_user ms)
     \<and> (\<forall>r \<in> set new. asked_at r = date \<and> country r = country_of conv
            \<and> assistant_response r = fst st \<and> score r = snd st)
     \<and> map s_no new = map int [length details + 1 ..< length details + length new + 1]"
proof (induction ms arbitrary: details)
  case Nil
  then show ?case by simp
next
  case (Cons m ms)
  from Cons.prems obtain d1 where s1: "user_step conv date st m details = Inr d1"
    and rest: "collect_user_questions conv date st ms d1 = Inr out"
    by (auto split: sum.splits)
  from Cons.IH [OF rest] obtain new where new: "out = d1 @ new"
    "map user_question new = map content_of (filter is_user ms)"
    "\<forall>r \<in> set new. asked_at r = date \<and> country r = country_of conv
            \<and> assistant_response r = fst st \<and> score r = snd st"
    "map s_no new = map int [length d1 + 1 ..< length d1 + length new + 1]"
    by blast
  show ?case
  proof (cases "is_user m")
    case False
    with user_step_Inr [OF s1] have "d1 = details" by simp
    with new False show ?thesis by auto
  next
    case True
    let ?row = "\<lparr>s_no = int (length details) + 1, asked_at = date, country = country_of conv,
        user_question = content_of m, assistant_response = fst st, score = snd st\<rparr>"
    from True user_step_Inr [OF s1] have d1: "d1 = details @ [?row]" by simp
    have e1: "length d1 + 1 = Suc (length details + 1)" unfolding d1 by simp
    have e2: "length d1 + length new + 1 = length details + length (?row # new) + 1"
      unfolding d1 by simp
    have lt: "length details + 1 < length details + length (?row # new) + 1" by simp
    have upt: "[length details + 1 ..< length details + length (?row # new) + 1]
        = (length details + 1) # [length d1 + 1 ..< length d1 + length new + 1]"
      unfolding e1 e2 by (rule upt_conv_Cons [OF lt])
    have "out = details @ (?row # new)" using new(1) d1 by simp
    moreover have "map user_question (?row # new) = map content_of (filter is_user (m # ms))"
      using new(2) True by simp
    moreover have "\<forall>r \<in> set (?row # new). asked_at r = date \<and> country r = country_of conv
            \<and> assistant_response r = fst st \<and> score r = snd st"
      using new(3) by simp
    moreover have "map s_no (?row # new)
        = map int [length details + 1 ..< length details + length (?row # new) + 1]"
      unfolding upt using new(4) by simp
    ultimately show ?thesis by blast
  qed
qed

lemma process_conversation_Inr:
  assumes "process_conversation conv details = Inr out"
  shows "\<exists>new. out = details @ new \<and> emitted_ok conv new
     \<and> map s_no new = map int [length details + 1 ..< length details + length new + 1]"
proof -
  from assms obtain raw stamp created_at msgs messages st where
    a: "py_getitem conv ''created_at'' = Inr raw" "split_plus_head raw = Inr stamp"
       "strptime stamp = Inr created_at" "py_getitem conv ''messages'' = Inr msgs"
       "py_iter msgs = Inr messages"
       "find_last_assistant messages (PNone, PStr ''N/A'') = Inr st"
       "collect_user_questions conv (strftime created_at) st messages details = Inr out"
    unfolding process_conversation_def by (blast dest: bind_err_Inr)
  have ms: "messages_of conv = messages" using a(4,5) by (simp add: messages_of_def bind_err_def)
  have date: "formatted_created_at conv = Inr (strftime created_at)"
    using a(1,2,3) by (simp add: formatted_created_at_def bind_err_def)
  have st: "st = last_answer conv"
    using find_last_assistant_Inr [OF a(6)] by (simp add: last_answer_def ms Let_def)
  from collect_user_questions_Inr [OF a(7)] obtain new where new: "out = details @ new"
    "map user_question new = map content_of (filter is_user messages)"
    "\<forall>r \<in> set new. asked_at r = strftime created_at \<and> country r = country_of conv
            \<and> assistant_response r = fst st \<and> score r = snd st"
    "map s_no new = map int [length details + 1 ..< length details + length new + 1]"
    by blast
  from new(2) have "length new = length (filter is_user messages)"
    by (metis length_map)
  then have "emitted_ok conv new" using new(2,3)
    by (simp add: emitted_ok_def user_count_def ms date st)
  with new(1,4) show ?thesis by blast
qed

lemma process_loop_Inr:
  "process_loop convs details = Inr out \<Longrightarrow>
   \<exists>groups. out = details @ concat groups \<and> list_all2 emitted_ok convs groups
     \<and> map s_no (concat groups)
        = map int [length details + 1 ..< length details + length (concat groups) + 1]"
proof (induction convs arbitrary: details)
  case Nil
  then show ?case by simp
next
  case (Cons c cs)
  from Cons.prems obtain d1 where s1: "process_conversation c details = Inr d1"
    and rest: "process_loop cs d1 = Inr out"
    by (auto split: sum.splits)
  from process_conversation_Inr [OF s1] obtain new where new: "d1 = details @ new"
    "emitted_ok c new"
    "map s_no new = map int [length details + 1 ..< length details + length new + 1]"
    by blast
  from Cons.IH [OF rest] obtain groups where g: "out = d1 @ concat groups"
    "list_all2 emitted_ok cs groups"
    "map s_no (concat groups) = map int [length d1 + 1 ..< length d1 + length (concat groups) + 1]"
    by blast
  have "[length details + 1 ..< (length details + length new + 1) + length (concat groups)]
      = [length details + 1 ..< length details + length new + 1]
        @ [length details + length new + 1 ..< (length details + length new + 1) + length (concat groups)]"
    by (rule upt_add_eq_append) simp
  moreover have "(length details + length new + 1) + length (concat groups)
      = length details + length (concat (new # groups)) + 1" by simp
  moreover have "length details + length new + 1 = length d1 + 1" unfolding new(1) by simp
  moreover have "(length details + length new + 1) + length (concat groups)
      = length d1 + length (concat groups) + 1" unfolding new(1) by simp
  ultimately have "[length details + 1 ..< length details + length (concat (new # groups)) + 1]
      = [length details + 1 ..< length details + length new + 1]
        @ [length d1 + 1 ..< length d1 + length (concat groups) + 1]"
    by (simp only:)
  then have "map s_no (concat (new # groups))
      = map int [length details + 1 ..< length details + length (concat (new # groups)) + 1]"
    using new(3) g(3) by simp
  moreover have "out = details @ concat (new # groups)" using g(1) new(1) by simp
  moreover have "list_all2 emitted_ok (c # cs) (new # groups)" using new(2) g(2) by simp
  ultimately show ?case by blast
qed

lemma rows_of_concat:
  assumes "list_all2 emitted_ok convs groups" and "i < length convs"
  shows "rows_of convs (concat groups) i = groups ! i"
  using assms
proof (induction convs groups arbitrary: i rule: list_all2_induct)
  case Nil
  then show ?case by simp
next
  case (Cons c cs g gs)
  from Cons.hyps(1) have len: "length g = user_count c" by (simp add: emitted_ok_def)
  show ?case
  proof (cases i)
    case 0
    then show ?thesis using len by (simp add: rows_of_def)
  next
    case (Suc j)
    then have "j < length cs" using Cons.prems by simp
    from Cons.IH [OF this] show ?thesis using Suc len by (simp add: rows_of_def)
  qed
qed

lemma conversation_details_Inr:
  assumes "conversation_details data = Inr rows"
  shows "\<exists>groups. rows = concat groups \<and> list_all2 emitted_ok (conversations_of data) groups
     \<and> map s_no rows = map int [1 ..< length rows + 1]"
proof -
  from assms obtain cs convs where a: "py_getitem data ''conversations'' = Inr cs"
    "py_iter cs = Inr convs" "process_loop convs [] = Inr rows"
    unfolding conversation_details_def by (blast dest: bind_err_Inr)
  have c: "conversations_of data = convs" using a(1,2) by (simp add: conversations_of_def bind_err_def)
  from process_loop_Inr [OF a(3)] show ?thesis unfolding c by auto
qed

subsection \<open>A document with all its keys is flattened\<close>






lemma example_details: "conversation_details example_document = Inr example_rows"
  by code_simp

lemma example_position: "0 < length (conversations_of example_document)"
  by code_simp

lemma example_rows_of: "rows_of (conversations_of example_document) example_rows 0 = example_rows"
  by code_simp



subsection \<open>The claims\<close>

text \<open>
  C1: when the flattener returns, every row emitted for a conversation that has an
  assistant text message carries the content and the score of the last such message of
  that conversation in document order, and every row emitted for a conversation without
  one carries a null answer and the sentinel \<^verbatim>\<open>N/A\<close> as its score.
\<close>

theorem flattener_last_assistant_answer:
  assumes "conversation_details data = Inr rows"
    and "i < length (conversations_of data)"
    and "r \<in> set (rows_of (conversations_of data) rows i)"
  shows "(filter is_assistant_text (messages_of (conversations_of data ! i)) \<noteq> [] \<longrightarrow>
            assistant_response r
              = content_of (last (filter is_assistant_text (messages_of (conversations_of data ! i))))
            \<and> score r
              = score_of (last (filter is_assistant_text (messages_of (conversations_of data ! i)))))
       \<and> (filter is_assistant_text (messages_of (conversations_of data ! i)) = [] \<longrightarrow>
            assistant_response r = PNone \<and> score r = PStr ''N/A'')"
proof -
  from conversation_details_Inr [OF assms(1)] obtain groups where g: "rows = concat groups"
    "list_all2 emitted_ok (conversations_of data) groups" by blast
  from rows_of_concat [OF g(2) assms(2)] assms(3) have r: "r \<in> set (groups ! i)"
    unfolding g(1) by simp
  from g(2) assms(2) have "emitted_ok (conversations_of data ! i) (groups ! i)"
    by (simp add: list_all2_nthD)
  with r have "assistant_response r = fst (last_answer (conversations_of data ! i))"
    "score r = snd (last_answer (conversations_of data ! i))"
    by (simp_all add: emitted_ok_def)
  then show ?thesis by (simp add: last_answer_def Let_def)
qed

theorem flattener_last_assistant_answer_witness:
  "conversation_details example_document = Inr example_rows
   \<and> 0 < length (conversations_of example_document)
   \<and> hd example_rows \<in> set (rows_of (conversations_of example_document) example_rows 0)
   \<and> filter is_assistant_text (messages_of (conversations_of example_document ! 0)) \<noteq> []
   \<and> assistant_response (hd example_rows) = PStr ''Hi.''
   \<and> score (hd example_rows) = PStr ''N/A''"
proof -
  have h3: "hd example_rows \<in> set (rows_of (conversations_of example_document) example_rows 0)"
    unfolding example_rows_of by (simp add: example_rows_def)
  have ne: "filter is_assistant_text (messages_of (conversations_of example_document ! 0)) \<noteq> []"
    by code_simp
  have c: "content_of (last (filter is_assistant_text (messages_of (conversations_of example_document ! 0))))
      = PStr ''Hi.''"
    by code_simp
  have s: "score_of (last (filter is_assistant_text (messages_of (conversations_of example_document ! 0))))
      = PStr ''N/A''"
    by code_simp
  from flattener_last_assistant_answer [OF example_details example_position h3] ne c s
  show ?thesis using example_details example_position h3 by simp
qed





section \<open>Properties of the aggregators\<close>

subsection \<open>Reading and assigning columns\<close>

lemma df_getitem_setitem_other:
  "c \<noteq> k \<Longrightarrow> df_getitem (df_setitem df k xs) c = df_getitem df c"
proof -
  assume ck: "c \<noteq> k"
  have "map_of (map (\<lambda>kv. if fst kv = k then (k, xs) else kv) df) c = map_of df c"
    using ck by (induction df) auto
  moreover have "map_of (df @ [(k, xs)]) c = map_of df c"
    using ck by (simp add: map_add_def split: option.splits)
  ultimately show ?thesis by (simp add: df_getitem_def df_setitem_def)
qed

lemma df_getitem_setitem_same: "df_getitem (df_setitem df k xs) k = Inr xs"
proof (cases "k \<in> set (map fst df)")
  case True
  then have "map_of (map (\<lambda>kv. if fst kv = k then (k, xs) else kv) df) k = Some xs"
    by (induction df) auto
  with True show ?thesis by (simp add: df_getitem_def df_setitem_def)
next
  case False
  then have "map_of df k = None" by (simp add: map_of_eq_None_iff)
  with False show ?thesis by (simp add: df_getitem_def df_setitem_def map_add_def)
qed

lemma df_setitem_columns:
  "map fst (df_setitem df k xs) = (if k \<in> set (map fst df) then map fst df else map fst df @ [k])"
proof -
  have "map fst (map (\<lambda>kv. if fst kv = k then (k, xs) else kv) df) = map fst df"
    by (induction df) auto
  then show ?thesis by (simp add: df_setitem_def)
qed

lemma df_setitem_has_column: "k \<in> set (map fst (df_setitem df k xs))"
  by (simp add: df_setitem_columns)

lemma snd_get_daily_metrics:
  "snd (get_daily_metrics to_date df) = df
   \<or> (\<exists>dates. snd (get_daily_metrics to_date df) = df_setitem df ''Date'' dates)"
  by (cases "bind_err (df_getitem df ''Asked at'') to_date")
    (auto simp: get_daily_metrics_def Let_def)

lemma snd_summarize_categories:
  "snd (summarize_categories df categories)
     = df_setitem df ''Category'' (map (\<lambda>c. case c of None \<Rightarrow> PNone | Some s \<Rightarrow> PStr s) categories)"
  by (simp add: summarize_categories_def Let_def)

lemma fst_summarize_categories:
  "fst (summarize_categories df categories) = Inr m \<Longrightarrow> \<exists>rows. m = category_frame rows"
  by (auto simp: summarize_categories_def category_table_def Let_def dest!: bind_err_Inr)

lemma get_category_metrics_cases:
  "(\<exists>e. get_category_metrics df = (Inl e, df))
   \<or> (\<exists>categories. get_category_metrics df = summarize_categories df categories)"
proof (cases "df_getitem df ''User Question''")
  case (Inl e)
  then show ?thesis by (simp add: get_category_metrics_def)
next
  case (Inr questions)
  obtain ys err where ab: "analyze_batch_questions questions 250 = (ys, err)"
    by (cases "analyze_batch_questions questions 250")
  show ?thesis
  proof (cases err)
    case None
    with Inr ab have "get_category_metrics df = summarize_categories df
        (case final_categories ys of None \<Rightarrow> replicate (length questions) None
         | Some cs \<Rightarrow> map Some cs)"
      by (simp add: get_category_metrics_def)
    then show ?thesis by blast
  next
    case (Some e)
    with Inr ab have "get_category_metrics df = (Inl e, df)"
      by (simp add: get_category_metrics_def)
    then show ?thesis by blast
  qed
qed

lemma snd_get_category_metrics:
  "snd (get_category_metrics df) = df
   \<or> (\<exists>cats. snd (get_category_metrics df) = df_setitem df ''Category'' cats)"
proof -
  from get_category_metrics_cases [of df] show ?thesis
  proof
    assume "\<exists>e. get_category_metrics df = (Inl e, df)"
    then show ?thesis by auto
  next
    assume "\<exists>categories. get_category_metrics df = summarize_categories df categories"
    then obtain categories
      where "get_category_metrics df = summarize_categories df categories" ..
    then have "snd (get_category_metrics df) = df_setitem df ''Category''
        (map (\<lambda>c. case c of None \<Rightarrow> PNone | Some s \<Rightarrow> PStr s) categories)"
      by (simp only: snd_summarize_categories)
    then show ?thesis by blast
  qed
qed

lemma fst_get_daily_metrics:
  assumes "fst (get_daily_metrics to_date df) = Inr m"
  shows "(\<exists>dates. snd (get_daily_metrics to_date df) = df_setitem df ''Date'' dates)
     \<and> map fst m = [''Date'', ''Questions'', ''Users'']"
proof (cases "bind_err (df_getitem df ''Asked at'') to_date")
  case (Inl e)
  with assms show ?thesis by (simp add: get_daily_metrics_def)
next
  case (Inr dates)
  let ?df = "df_setitem df ''Date'' (map date_cell dates)"
  from Inr assms have "\<exists>rows. m = daily_frame rows"
    by (auto simp: get_daily_metrics_def Let_def dest!: bind_err_Inr)
  then have "map fst m = [''Date'', ''Questions'', ''Users'']"
    by (auto simp: daily_frame_def)
  moreover from Inr have "snd (get_daily_metrics to_date df) = ?df"
    by (simp add: get_daily_metrics_def Let_def)
  ultimately show ?thesis by blast
qed

lemma fst_get_category_metrics:
  assumes "fst (get_category_metrics df) = Inr m"
  shows "(\<exists>cats. snd (get_category_metrics df) = df_setitem df ''Category'' cats)
     \<and> map fst m = [''Category'', ''Count'', ''Percentage'']"
proof -
  from get_category_metrics_cases [of df] assms obtain categories
    where c: "get_category_metrics df = summarize_categories df categories"
    by auto
  with assms have "\<exists>rows. m = category_frame rows"
    by (simp add: fst_summarize_categories)
  then have "map fst m = [''Category'', ''Count'', ''Percentage'']"
    by (auto simp: category_frame_def)
  moreover have "\<exists>cats. snd (get_category_metrics df) = df_setitem df ''Category'' cats"
    unfolding c snd_summarize_categories by blast
  ultimately show ?thesis by blast
qed

lemma get_country_metrics_columns:
  assumes "get_country_metrics df = Inr m"
  shows "map fst m = [''Country'', ''Questions'', ''Users'']"
proof -
  from assms have "\<exists>rows. m = country_frame rows"
    by (auto simp: get_country_metrics_def Let_def dest!: bind_err_Inr)
  then show ?thesis by (auto simp: country_frame_def)
qed

subsection \<open>The empty table\<close>

text \<open>
  C10: for a document whose list of conversations is empty the flattener returns the table
  without any column, and on this table the daily aggregator raises the
  \<^verbatim>\<open>KeyError\<close> of the missing column \<^verbatim>\<open>Asked at\<close> (whatever the date parser is, and
  leaving the table as it was) and the country aggregator that of the missing column
  \<^verbatim>\<open>Country\<close>; neither returns a table of metrics.
\<close>

theorem empty_document_gives_no_columns:
  assumes "py_getitem data ''conversations'' = Inr (PList [])"
  shows "process_conversations data = Inr []
     \<and> map fst ([] :: dataframe) = []
     \<and> get_daily_metrics to_date [] = (Inl (KeyError ''Asked at''), [])
     \<and> get_country_metrics [] = Inl (KeyError ''Country'')"
proof -
  from assms have "conversation_details data = Inr []"
    by (simp add: conversation_details_def bind_err_def)
  then have "process_conversations data = Inr []"
    by (simp add: process_conversations_def bind_err_def DataFrame_def)
  moreover have "get_daily_metrics to_date [] = (Inl (KeyError ''Asked at''), [])"
    by (simp add: get_daily_metrics_def df_getitem_def bind_err_def)
  moreover have "get_country_metrics [] = Inl (KeyError ''Country'')"
    by (simp add: get_country_metrics_def df_getitem_def bind_err_def)
  ultimately show ?thesis by simp
qed

theorem empty_document_gives_no_columns_witness:
  "py_getitem (PDict [(''conversations'', PList [])]) ''conversations'' = Inr (PList [])
   \<and> process_conversations (PDict [(''conversations'', PList [])]) = Inr []
   \<and> get_daily_metrics (\<lambda>cells. Inr []) [] = (Inl (KeyError ''Asked at''), [])
   \<and> get_country_metrics [] = Inl (KeyError ''Country'')"
proof -
  have h: "py_getitem (PDict [(''conversations'', PList [])]) ''conversations'' = Inr (PList [])"
    by simp
  from empty_document_gives_no_columns [OF h, of "\<lambda>cells. Inr []"] h show ?thesis by simp
qed

subsection \<open>The category aggregator on the example table\<close>

lemma example_questions:
  "df_getitem (DataFrame example_rows) ''User Question'' = Inr [PStr ''What is Atlan?'', PStr ''hello'']"
  by code_simp

lemma example_batches:
  "analyze_batch_questions [PStr ''What is Atlan?'', PStr ''hello''] 250
     = ([(1, 2, [''What is / Define (Branded)'', ''Others''])], None)"
  by code_simp

lemma example_get_category_metrics:
  "get_category_metrics (DataFrame example_rows)
     = summarize_categories (DataFrame example_rows) [Some ''What is / Define (Branded)'', Some ''Others'']"
  by (simp add: get_category_metrics_def example_questions example_batches final_categories_def)

lemma example_category_column:
  "df_getitem (df_setitem (DataFrame example_rows) ''Category''
       [PStr ''What is / Define (Branded)'', PStr ''Others'']) ''User Question''
     = Inr [PStr ''What is Atlan?'', PStr ''hello'']"
  by code_simp

lemma example_category_table:
  "category_table [PStr ''What is Atlan?'', PStr ''hello'']
       [Some ''What is / Define (Branded)'', Some ''Others'']
     = [(''Category'', [PStr ''Others'', PStr ''What is / Define (Branded)'']),
        (''Count'', [PInt 1, PInt 1]),
        (''Percentage'', [PStr ''50.0%'', PStr ''50.0%''])]"
  by code_simp

lemma example_summarize_categories:
  "fst (summarize_categories (DataFrame example_rows) [Some ''What is / Define (Branded)'', Some ''Others''])
     = Inr [(''Category'', [PStr ''Others'', PStr ''What is / Define (Branded)'']),
            (''Count'', [PInt 1, PInt 1]),
            (''Percentage'', [PStr ''50.0%'', PStr ''50.0%''])]"
  by (simp add: summarize_categories_def Let_def bind_err_def example_category_column
      example_category_table)

subsection \<open>What the aggregators do to their input\<close>

text \<open>
  C6, as stated, fails: the category aggregator assigns the column \<^verbatim>\<open>Category\<close> to the
  table it is given, so after the call the table of the caller has one more column.
\<close>

theorem category_aggregator_mutates_counterexample:
  "snd (get_category_metrics (DataFrame example_rows)) \<noteq> DataFrame example_rows
   \<and> map fst (DataFrame example_rows)
       = [''S.No'', ''Asked at'', ''Country'', ''User Question'', ''Assistant Response'', ''Score'']
   \<and> map fst (snd (get_category_metrics (DataFrame example_rows)))
       = [''S.No'', ''Asked at'', ''Country'', ''User Question'', ''Assistant Response'', ''Score'',
          ''Category'']"
proof -
  have a: "map fst (DataFrame example_rows)
       = [''S.No'', ''Asked at'', ''Country'', ''User Question'', ''Assistant Response'', ''Score'']"
    by code_simp
  have b: "map fst (snd (get_category_metrics (DataFrame example_rows)))
       = [''S.No'', ''Asked at'', ''Country'', ''User Question'', ''Assistant Response'', ''Score'',
          ''Category'']"
    unfolding example_get_category_metrics snd_summarize_categories df_setitem_columns a
    by simp
  from a b have "snd (get_category_metrics (DataFrame example_rows)) \<noteq> DataFrame example_rows"
    by auto
  with a b show ?thesis by simp
qed

text \<open>
  C6, as amended: the daily aggregator assigns the column \<^verbatim>\<open>Date\<close> to its input table
  and the category aggregator the column \<^verbatim>\<open>Category\<close>; every other column of the input
  keeps its cells, and the names of the columns stay as they were, with the assigned name
  added at the end when it was not among them. Whenever one of them returns, the assigned
  column is in the input table, and the metrics it returns are a table of their own
  with the three columns of that aggregator. (The country aggregator makes no assignment
  to its input at all: \<open>get_country_metrics\<close> has the table as an argument only.)
\<close>

theorem aggregators_assign_one_column:
  "(c \<noteq> ''Date'' \<longrightarrow> df_getitem (snd (get_daily_metrics to_date df)) c = df_getitem df c)
   \<and> (c \<noteq> ''Category'' \<longrightarrow> df_getitem (snd (get_category_metrics df)) c = df_getitem df c)
   \<and> map fst (snd (get_daily_metrics to_date df)) \<in> {map fst df, map fst df @ [''Date'']}
   \<and> map fst (snd (get_category_metrics df)) \<in> {map fst df, map fst df @ [''Category'']}
   \<and> (\<forall>m. fst (get_daily_metrics to_date df) = Inr m \<longrightarrow>
         ''Date'' \<in> set (map fst (snd (get_daily_metrics to_date df)))
         \<and> map fst m = [''Date'', ''Questions'', ''Users''])
   \<and> (\<forall>m. fst (get_category_metrics df) = Inr m \<longrightarrow>
         ''Category'' \<in> set (map fst (snd (get_category_metrics df)))
         \<and> map fst m = [''Category'', ''Count'', ''Percentage''])
   \<and> (\<forall>m. get_country_metrics df = Inr m \<longrightarrow> map fst m = [''Country'', ''Questions'', ''Users''])"
proof (intro conjI impI allI)
  assume "c \<noteq> ''Date''"
  then show "df_getitem (snd (get_daily_metrics to_date df)) c = df_getitem df c"
    using snd_get_daily_metrics [of to_date df] by (auto simp: df_getitem_setitem_other)
next
  assume "c \<noteq> ''Category''"
  then show "df_getitem (snd (get_category_metrics df)) c = df_getitem df c"
    using snd_get_category_metrics [of df] by (auto simp: df_getitem_setitem_other)
next
  show "map fst (snd (get_daily_metrics to_date df)) \<in> {map fst df, map fst df @ [''Date'']}"
    using snd_get_daily_metrics [of to_date df] by (auto simp: df_setitem_columns split: if_splits)
next
  show "map fst (snd (get_category_metrics df)) \<in> {map fst df, map fst df @ [''Category'']}"
    using snd_get_category_metrics [of df] by (auto simp: df_setitem_columns split: if_splits)
next
  fix m assume "fst (get_daily_metrics to_date df) = Inr m"
  note r = fst_get_daily_metrics [OF this]
  from r have c: "map fst m = [''Date'', ''Questions'', ''Users'']" by (rule conjunct2)
  from r have "\<exists>dates. snd (get_daily_metrics to_date df) = df_setitem df ''Date'' dates"
    by (rule conjunct1)
  then obtain dates
    where d: "snd (get_daily_metrics to_date df) = df_setitem df ''Date'' dates" ..
  show "''Date'' \<in> set (map fst (snd (get_daily_metrics to_date df)))"
    unfolding d by (rule df_setitem_has_column)
  show "map fst m = [''Date'', ''Questions'', ''Users'']" by (rule c)
next
  fix m assume "fst (get_category_metrics df) = Inr m"
  note r = fst_get_category_metrics [OF this]
  from r have c: "map fst m = [''Category'', ''Count'', ''Percentage'']" by (rule conjunct2)
  from r have "\<exists>cats. snd (get_category_metrics df) = df_setitem df ''Category'' cats"
    by (rule conjunct1)
  then obtain cats
    where d: "snd (get_category_metrics df) = df_setitem df ''Category'' cats" ..
  show "''Category'' \<in> set (map fst (snd (get_category_metrics df)))"
    unfolding d by (rule df_setitem_has_column)
  show "map fst m = [''Category'', ''Count'', ''Percentage'']" by (rule c)
next
  fix m assume "get_country_metrics df = Inr m"
  then show "map fst m = [''Country'', ''Questions'', ''Users'']"
    by (rule get_country_metrics_columns)
qed

theorem aggregators_assign_one_column_witness:
  "''Country'' \<noteq> ''Date'' \<and> ''Country'' \<noteq> ''Category''
   \<and> df_getitem (snd (get_daily_metrics (\<lambda>cells. Inr (map (\<lambda>x. Some (2024, 1, 15)) cells))
        (DataFrame example_rows))) ''Country'' = Inr [PStr ''US'', PStr ''US'']
   \<and> df_getitem (snd (get_category_metrics (DataFrame example_rows))) ''Country''
        = Inr [PStr ''US'', PStr ''US'']
   \<and> fst (get_category_metrics (DataFrame example_rows))
        = Inr [(''Category'', [PStr ''Others'', PStr ''What is / Define (Branded)'']),
               (''Count'', [PInt 1, PInt 1]),
               (''Percentage'', [PStr ''50.0%'', PStr ''50.0%''])]
   \<and> ''Category'' \<in> set (map fst (snd (get_category_metrics (DataFrame example_rows))))
   \<and> (\<exists>m. get_country_metrics (DataFrame example_rows) = Inr m
          \<and> map fst m = [''Country'', ''Questions'', ''Users''])"
proof -
  have c: "df_getitem (DataFrame example_rows) ''Country'' = Inr [PStr ''US'', PStr ''US'']"
    by code_simp
  have m: "fst (get_category_metrics (DataFrame example_rows))
        = Inr [(''Category'', [PStr ''Others'', PStr ''What is / Define (Branded)'']),
               (''Count'', [PInt 1, PInt 1]),
               (''Percentage'', [PStr ''50.0%'', PStr ''50.0%''])]"
    by (simp only: example_get_category_metrics example_summarize_categories)
  have k: "get_country_metrics (DataFrame example_rows)
        = Inr [(''Country'', [PStr ''US'']), (''Questions'', [PInt 2]), (''Users'', [PInt 1])]"
    by code_simp
  have ne: "''Country'' \<noteq> ''Date''" "''Country'' \<noteq> ''Category''" by simp_all
  note t = aggregators_assign_one_column
    [of "''Country''" "\<lambda>cells. Inr (map (\<lambda>x. Some (2024, 1, 15)) cells)" "DataFrame example_rows"]
  have 1: "df_getitem (snd (get_daily_metrics (\<lambda>cells. Inr (map (\<lambda>x. Some (2024, 1, 15)) cells))
        (DataFrame example_rows))) ''Country'' = Inr [PStr ''US'', PStr ''US'']"
    using t [THEN conjunct1, THEN mp, OF ne(1)] by (simp only: c)
  have 2: "df_getitem (snd (get_category_metrics (DataFrame example_rows))) ''Country''
        = Inr [PStr ''US'', PStr ''US'']"
    using t [THEN conjunct2, THEN conjunct1, THEN mp, OF ne(2)] by (simp only: c)
  have 3: "''Category'' \<in> set (map fst (snd (get_category_metrics (DataFrame example_rows))))"
    using t [THEN conjunct2, THEN conjunct2, THEN conjunct2, THEN conjunct2, THEN conjunct2,
        THEN conjunct1, rule_format, OF m]
    by (rule conjunct1)
  have "map fst [(''Country'', [PStr ''US'']), (''Questions'', [PInt 2]), (''Users'', [PInt 1])]
      = [''Country'', ''Questions'', ''Users'']"
    by (rule t [THEN conjunct2, THEN conjunct2, THEN conjunct2, THEN conjunct2, THEN conjunct2,
        THEN conjunct2, rule_format, OF k])
  with k have 4: "\<exists>m. get_country_metrics (DataFrame example_rows) = Inr m
          \<and> map fst m = [''Country'', ''Questions'', ''Users'']"
    by (intro exI conjI)
  from ne 1 2 m 3 4 show ?thesis by (intro conjI)
qed

section \<open>Failures of the flattener\<close>

lemma bind_err_Inl: "m = Inl e \<Longrightarrow> bind_err m f = Inl e"
  by (simp add: bind_err_def)

lemma bind_err_step: "m = Inr x \<Longrightarrow> bind_err m f = f x"
  by (simp add: bind_err_def)
















section \<open>The country aggregator\<close>

subsection \<open>Groups of a column of strings\<close>








subsection \<open>The descending sort\<close>






subsection \<open>The claim\<close>






end
